theory Spec2Isabelle
  imports Complex_Main
begin

section \<open>Exceptions and loops\<close>

text \<open>
  The program is a Python script over a tensor framework. Every exception the script or
  the framework can raise on the paths modelled here is a value of \<open>error\<close>; a function
  that may raise returns \<open>error + 'a\<close>, with \<open>Inl\<close> for the exception. Sizes and counts
  (tensor dimensions, patch, head and block counts) are natural numbers. Tensor entries
  are real numbers: the rounding of the framework's 32-bit floats is outside the model.
\<close>

datatype error = AssertionError | RuntimeError | ZeroDivisionError | IndexError | TypeError

text \<open>Sequencing of two steps, the first of which may raise.\<close>

definition and_then :: "error + 'a \<Rightarrow> ('a \<Rightarrow> error + 'b) \<Rightarrow> error + 'b" where
  "and_then r f = (case r of Inl e \<Rightarrow> Inl e | Inr x \<Rightarrow> f x)"

text \<open>
  A \<^verbatim>\<open>for x in xs: body\<close> loop over a state \<open>s\<close>: the body may raise, which ends
  the loop with that exception.
\<close>

fun for_each :: "'b list \<Rightarrow> ('b \<Rightarrow> 's \<Rightarrow> error + 's) \<Rightarrow> 's \<Rightarrow> error + 's" where
  "for_each [] body s = Inr s"
| "for_each (x # xs) body s = (case body x s of Inl e \<Rightarrow> Inl e | Inr s' \<Rightarrow> for_each xs body s')"

text \<open>A function that may raise, applied along the leading axis of a tensor.\<close>

fun map_raise :: "('a \<Rightarrow> error + 'b) \<Rightarrow> 'a list \<Rightarrow> error + 'b list" where
  "map_raise f [] = Inr []"
| "map_raise f (x # xs) =
     (case f x of Inl e \<Rightarrow> Inl e
      | Inr y \<Rightarrow> (case map_raise f xs of Inl e \<Rightarrow> Inl e | Inr ys \<Rightarrow> Inr (y # ys)))"

section \<open>Tensors\<close>

text \<open>
  A tensor of rank \<open>k\<close> is a \<open>k\<close>-fold nested list, outermost axis first. The image
  batch, whose \<^verbatim>\<open>shape\<close> the program reads, carries its shape beside its entries, as
  the framework's tensors do; \<open>tensor4_ok\<close> says that the entries fill that shape.
\<close>

record 'a tensor4 =
  shape4 :: "nat \<times> nat \<times> nat \<times> nat"
  items4 :: "'a list list list list"

definition tensor4_ok :: "'a tensor4 \<Rightarrow> bool" where
  "tensor4_ok t =
     (case shape4 t of (n, c, h, w) \<Rightarrow>
        length (items4 t) = n \<and>
        list_all (\<lambda>img. length img = c \<and>
          list_all (\<lambda>channel. length channel = h \<and>
            list_all (\<lambda>row. length row = w) channel) img) (items4 t))"

text \<open>\<^verbatim>\<open>torch.zeros(n, m, l)\<close>.\<close>

definition zeros3 :: "nat \<Rightarrow> nat \<Rightarrow> nat \<Rightarrow> 'a::zero list list list" where
  "zeros3 n m l = replicate n (replicate m (replicate l 0))"

text \<open>The slice \<^verbatim>\<open>xs[a:b]\<close> for bounds that are not negative: it clips at the end.\<close>

definition slice :: "nat \<Rightarrow> nat \<Rightarrow> 'a list \<Rightarrow> 'a list" where
  "slice a b xs = take (b - a) (drop a xs)"

text \<open>\<^verbatim>\<open>image[:, r0:r1, c0:c1]\<close> on a tensor of rank 3.\<close>

definition slice3 :: "'a list list list \<Rightarrow> nat \<Rightarrow> nat \<Rightarrow> nat \<Rightarrow> nat \<Rightarrow> 'a list list list" where
  "slice3 img r0 r1 c0 c1 = map (\<lambda>channel. map (slice c0 c1) (slice r0 r1 channel)) img"

text \<open>\<^verbatim>\<open>t.flatten()\<close> on a tensor of rank 3: the last axis varies fastest.\<close>

definition flatten3 :: "'a list list list \<Rightarrow> 'a list" where
  "flatten3 t = concat (concat t)"

text \<open>
  The assignment \<^verbatim>\<open>t[idx, k] = v\<close> of a vector to a row of a tensor of rank 3. The
  framework copies a vector of the row's length, repeats a vector of length 1 along the
  row, and raises on every other length.
\<close>

definition setitem2 :: "'a list list list \<Rightarrow> nat \<Rightarrow> nat \<Rightarrow> 'a list \<Rightarrow> error + 'a list list list" where
  "setitem2 t idx k v =
     (if idx < length t \<and> k < length (t ! idx) then
        (let l = length (t ! idx ! k) in
         if length v = l then Inr (t[idx := (t ! idx)[k := v]])
         else if length v = 1 then Inr (t[idx := (t ! idx)[k := replicate l (hd v)]])
         else Inl RuntimeError)
      else Inl IndexError)"

section \<open>Patch extraction\<close>

text \<open>
  \<^verbatim>\<open>patchify(images, n_patches)\<close>. The third dimension of the result is allocated as
  \<^verbatim>\<open>h * w // n_patches ** 2\<close>; evaluating it raises when \<open>n_patches\<close> is 0.
\<close>

definition patchify :: "'a::zero tensor4 \<Rightarrow> nat \<Rightarrow> error + 'a list list list" where
  "patchify images n_patches =
     (case shape4 images of (n, c, h, w) \<Rightarrow>
        if h \<noteq> w then Inl AssertionError
        else if n_patches ^ 2 = 0 then Inl ZeroDivisionError
        else
          let patches = zeros3 n (n_patches ^ 2) (h * w div n_patches ^ 2);
              patch_size = h div n_patches
          in for_each (List.enumerate 0 (items4 images)) (\<lambda>(idx, img).
               for_each [0..<n_patches] (\<lambda>i.
                 for_each [0..<n_patches] (\<lambda>j patches.
                   let patch = slice3 img (i * patch_size) ((i + 1) * patch_size)
                                 (j * patch_size) ((j + 1) * patch_size)
                   in setitem2 patches idx (i * n_patches + j) (flatten3 patch)))) patches)"

section \<open>Positional embeddings\<close>

text \<open>\<^verbatim>\<open>torch.ones(n, m)\<close>.\<close>

definition ones2 :: "nat \<Rightarrow> nat \<Rightarrow> real list list" where
  "ones2 n m = replicate n (replicate m 1)"

text \<open>
  \<^verbatim>\<open>get_positional_embeddings(sequence_legth, d)\<close>: two nested loops that overwrite
  the entries of a table of ones, \<^verbatim>\<open>result[i][j] = ...\<close>. The indices run over the
  table's own dimensions, so the assignment is a list update.
\<close>

definition get_positional_embeddings :: "nat \<Rightarrow> nat \<Rightarrow> real list list" where
  "get_positional_embeddings sequence_legth d =
     fold (\<lambda>i. fold (\<lambda>j result. result[i := (result ! i)[j :=
             (if j mod 2 = 0 then sin (real i / (10000 powr (real j / real d)))
              else cos (real i / (10000 powr ((real j - 1) / real d))))]]) [0..<d])
       [0..<sequence_legth] (ones2 sequence_legth d)"

section \<open>Layers of the framework\<close>

text \<open>
  The layers the program builds its model from, as the framework documents them. Each
  acts on the last axis of its input, so it is defined on a vector and lifted along
  the leading axes.
\<close>

definition dot :: "real list \<Rightarrow> real list \<Rightarrow> real" where
  "dot xs ys = sum_list (map2 (*) xs ys)"

text \<open>\<^verbatim>\<open>nn.Linear(in_features, out_features)\<close>: \<open>y = x W\<^sup>T + b\<close>, with \<open>W\<close> of shape
  (out_features, in_features). It raises when the input's last axis is not \<open>in_features\<close> wide.\<close>

record Linear =
  in_features :: nat
  out_features :: nat
  weight :: "real list list"
  bias :: "real list"

definition Linear_vec :: "Linear \<Rightarrow> real list \<Rightarrow> error + real list" where
  "Linear_vec l x =
     (if length x = in_features l then Inr (map2 (\<lambda>w b. dot x w + b) (weight l) (bias l))
      else Inl RuntimeError)"

definition Linear2 :: "Linear \<Rightarrow> real list list \<Rightarrow> error + real list list" where
  "Linear2 l x = map_raise (Linear_vec l) x"

definition Linear3 :: "Linear \<Rightarrow> real list list list \<Rightarrow> error + real list list list" where
  "Linear3 l x = map_raise (Linear2 l) x"

text \<open>\<^verbatim>\<open>nn.Softmax(dim=-1)\<close> on a vector.\<close>

definition softmax :: "real list \<Rightarrow> real list" where
  "softmax xs = map (\<lambda>x. exp x / sum_list (map exp xs)) xs"

text \<open>\<^verbatim>\<open>nn.GELU()\<close>: \<open>x \<Phi>(x)\<close>, with \<open>\<Phi>\<close> the distribution function of the
  standard normal law, written with the error function's series.\<close>

definition erf :: "real \<Rightarrow> real" where
  "erf x = 2 / sqrt pi * (\<Sum>n. (- 1) ^ n * x ^ (2 * n + 1) / (fact n * real (2 * n + 1)))"

definition gelu :: "real \<Rightarrow> real" where
  "gelu x = x * ((1 + erf (x / sqrt 2)) / 2)"

text \<open>\<^verbatim>\<open>nn.LayerNorm(normalized_shape)\<close> over the last axis, with the biased variance.\<close>

record LayerNorm =
  normalized_shape :: nat
  ln_weight :: "real list"
  ln_bias :: "real list"
  ln_eps :: real

definition mean :: "real list \<Rightarrow> real" where
  "mean xs = sum_list xs / real (length xs)"

definition variance :: "real list \<Rightarrow> real" where
  "variance xs = mean (map (\<lambda>x. (x - mean xs) ^ 2) xs)"

definition layer_norm :: "LayerNorm \<Rightarrow> real list \<Rightarrow> real list" where
  "layer_norm layer x =
     map (\<lambda>k. (x ! k - mean x) / sqrt (variance x + ln_eps layer) * ln_weight layer ! k + ln_bias layer ! k)
       [0..<length x]"

definition LayerNorm_vec :: "LayerNorm \<Rightarrow> real list \<Rightarrow> error + real list" where
  "LayerNorm_vec layer x =
     (if length x = normalized_shape layer then Inr (layer_norm layer x) else Inl RuntimeError)"

definition LayerNorm3 :: "LayerNorm \<Rightarrow> real list list list \<Rightarrow> error + real list list list" where
  "LayerNorm3 layer x = map_raise (map_raise (LayerNorm_vec layer)) x"

text \<open>\<^verbatim>\<open>nn.Sequential(...)\<close> over the layers the program puts in one: each layer is
  applied to the whole tensor, in order.\<close>

datatype module = Linear_layer Linear | GELU | Softmax

fun module_vec :: "module \<Rightarrow> real list \<Rightarrow> error + real list" where
  "module_vec (Linear_layer l) x = Linear_vec l x"
| "module_vec GELU x = Inr (map gelu x)"
| "module_vec Softmax x = Inr (softmax x)"

definition Sequential2 :: "module list \<Rightarrow> real list list \<Rightarrow> error + real list list" where
  "Sequential2 ms x = for_each ms (\<lambda>m. map_raise (module_vec m)) x"

definition Sequential3 :: "module list \<Rightarrow> real list list list \<Rightarrow> error + real list list list" where
  "Sequential3 ms x = for_each ms (\<lambda>m. map_raise (map_raise (module_vec m))) x"

section \<open>Tensor operations of the attention and the model\<close>

text \<open>\<^verbatim>\<open>xs[i]\<close> on a list of modules or along an axis: out of range it raises.\<close>

definition item :: "'a list \<Rightarrow> nat \<Rightarrow> error + 'a" where
  "item xs i = (if i < length xs then Inr (xs ! i) else Inl IndexError)"

text \<open>\<^verbatim>\<open>a @ b.T\<close> for matrices \<open>a\<close> and \<open>b\<close> of equal width: entry \<open>(i, j)\<close> is the
  product of row \<open>i\<close> of \<open>a\<close> and row \<open>j\<close> of \<open>b\<close>.\<close>

definition matmul_nt :: "real list list \<Rightarrow> real list list \<Rightarrow> real list list" where
  "matmul_nt a b = map (\<lambda>arow. map (\<lambda>brow. dot arow brow) b) a"

definition ncols :: "'a list list \<Rightarrow> nat" where
  "ncols m = (case m of [] \<Rightarrow> 0 | r # _ \<Rightarrow> length r)"

text \<open>\<^verbatim>\<open>a @ b\<close>, where \<open>a\<close> has as many columns as \<open>b\<close> has rows.\<close>

definition matmul :: "real list list \<Rightarrow> real list list \<Rightarrow> real list list" where
  "matmul a b = map (\<lambda>arow. map (\<lambda>j. dot arow (map (\<lambda>brow. brow ! j) b)) [0..<ncols b]) a"

text \<open>\<^verbatim>\<open>m / c\<close> for a matrix and a number.\<close>

definition divide_by :: "real list list \<Rightarrow> real \<Rightarrow> real list list" where
  "divide_by m c = map (map (\<lambda>x. x / c)) m"

text \<open>\<^verbatim>\<open>torch.hstack\<close> of matrices: side by side; it raises on the empty list and on
  matrices of different heights.\<close>

definition hstack :: "real list list list \<Rightarrow> error + real list list" where
  "hstack ts =
     (case ts of [] \<Rightarrow> Inl RuntimeError
      | t # rest \<Rightarrow>
          if list_all (\<lambda>u. length u = length t) rest
          then Inr (map (\<lambda>i. concat (map (\<lambda>u. u ! i) ts)) [0..<length t])
          else Inl RuntimeError)"

text \<open>\<^verbatim>\<open>torch.unsqueeze(r, dim=0)\<close> and \<^verbatim>\<open>torch.cat\<close> along the leading axis;
  \<^verbatim>\<open>torch.cat\<close> and \<^verbatim>\<open>torch.stack\<close> raise on the empty list.\<close>

definition unsqueeze :: "'a \<Rightarrow> 'a list" where
  "unsqueeze r = [r]"

definition cat :: "'a list list \<Rightarrow> error + 'a list" where
  "cat ts = (if ts = [] then Inl RuntimeError else Inr (concat ts))"

definition stack :: "'a list \<Rightarrow> error + 'a list" where
  "stack ts = (if ts = [] then Inl RuntimeError else Inr ts)"

text \<open>\<^verbatim>\<open>torch.vstack((a, b))\<close> of two matrices: it raises when their widths differ.\<close>

definition vstack :: "real list list \<Rightarrow> real list list \<Rightarrow> error + real list list" where
  "vstack a b =
     (if list_all (\<lambda>ra. list_all (\<lambda>rb. length ra = length rb) b) a then Inr (a @ b)
      else Inl RuntimeError)"

text \<open>\<^verbatim>\<open>x + y\<close> on tensors of rank 3 of one shape; on different shapes it raises
  (the framework's broadcasting of axes of size 1 is not modelled).\<close>

definition add3 :: "real list list list \<Rightarrow> real list list list \<Rightarrow> error + real list list list" where
  "add3 x y =
     (if map (map length) x = map (map length) y then Inr (map2 (map2 (map2 (+))) x y)
      else Inl RuntimeError)"

section \<open>Multi-head self-attention\<close>

record MyMSA =
  msa_d :: nat
  msa_n_heads :: nat
  q_mappings :: "Linear list"
  k_mappings :: "Linear list"
  v_mappings :: "Linear list"
  d_head :: nat

text \<open>
  \<^verbatim>\<open>MyMSA.forward(sequences)\<close>: the outer loop appends one matrix per sequence to
  \<open>result\<close>, the inner loop one matrix per head to \<open>seq_result\<close>.
\<close>

definition MyMSA_forward :: "MyMSA \<Rightarrow> real list list list \<Rightarrow> error + real list list list" where
  "MyMSA_forward self sequences =
     and_then
       (for_each sequences (\<lambda>sequence result.
          and_then
            (for_each [0..<msa_n_heads self] (\<lambda>head seq_result.
               and_then (item (q_mappings self) head) (\<lambda>q_mapping.
               and_then (item (k_mappings self) head) (\<lambda>k_mapping.
               and_then (item (v_mappings self) head) (\<lambda>v_mapping.
               let seq = map (slice (head * d_head self) ((head + 1) * d_head self)) sequence in
               and_then (Linear2 q_mapping seq) (\<lambda>q.
               and_then (Linear2 k_mapping seq) (\<lambda>k.
               and_then (Linear2 v_mapping seq) (\<lambda>v.
               let attention = map softmax (divide_by (matmul_nt q k) (sqrt (real (d_head self))))
               in Inr (seq_result @ [matmul attention v])))))))) [])
            (\<lambda>seq_result. and_then (hstack seq_result) (\<lambda>r. Inr (result @ [r])))) [])
       (\<lambda>result. cat (map unsqueeze result))"

section \<open>Transformer block\<close>

record MyVitBlock =
  blk_hidden_d :: nat
  blk_n_heads :: nat
  norm1 :: LayerNorm
  mhsa :: MyMSA
  norm2 :: LayerNorm
  blk_mlp :: "module list"

definition MyVitBlock_forward :: "MyVitBlock \<Rightarrow> real list list list \<Rightarrow> error + real list list list" where
  "MyVitBlock_forward self x =
     and_then (LayerNorm3 (norm1 self) x) (\<lambda>normed1.
     and_then (MyMSA_forward (mhsa self) normed1) (\<lambda>attended.
     and_then (add3 x attended) (\<lambda>out.
     and_then (LayerNorm3 (norm2 self) out) (\<lambda>normed2.
     and_then (Sequential3 (blk_mlp self) normed2) (\<lambda>fed.
     add3 out fed)))))"

section \<open>The model\<close>

text \<open>An \<^verbatim>\<open>nn.Parameter\<close> the program creates itself: its tensor and its
  gradient-tracking flag.\<close>

record parameter =
  param_data :: "real list list"
  requires_grad :: bool

record Myvit =
  vit_chw :: "nat \<times> nat \<times> nat"
  vit_n_patches :: nat
  vit_n_bloack :: nat
  vit_n_heads :: nat
  vit_hidden_d :: nat
  vit_patch_size :: "real \<times> real"
  vit_input_d :: nat
  vit_linear_mapper :: Linear
  vit_class_token :: parameter
  vit_pos_embed :: parameter
  vit_blocks :: "MyVitBlock list"
  vit_mlp :: "module list"

text \<open>
  \<^verbatim>\<open>Myvit.forward(images)\<close>. \<^verbatim>\<open>tokens[i]\<close> ranges over \<^verbatim>\<open>range(len(tokens))\<close>,
  \<^verbatim>\<open>pos_embed.repeat(n, 1, 1)\<close> is \<open>n\<close> copies of the table, and \<^verbatim>\<open>out[:, 0]\<close> takes
  the first row of every sequence.
\<close>

definition Myvit_forward :: "Myvit \<Rightarrow> real tensor4 \<Rightarrow> error + real list list" where
  "Myvit_forward self images =
     (case shape4 images of (n, c, h, w) \<Rightarrow>
        and_then (patchify images (vit_n_patches self)) (\<lambda>patches.
        and_then (Linear3 (vit_linear_mapper self) patches) (\<lambda>tokens.
        and_then (and_then
            (map_raise (\<lambda>i. vstack (param_data (vit_class_token self)) (tokens ! i)) [0..<length tokens])
            stack) (\<lambda>tokens.
        let pos_embed = replicate n (param_data (vit_pos_embed self)) in
        and_then (add3 tokens pos_embed) (\<lambda>out.
        and_then (for_each (vit_blocks self) MyVitBlock_forward out) (\<lambda>out.
        and_then (map_raise (\<lambda>sequence. item sequence 0) out) (\<lambda>out.
        Sequential2 (vit_mlp self) out)))))))"

section \<open>Construction\<close>

text \<open>
  The constructors draw the initial weights from the framework's random number
  generator. Its state is the stream of numbers it will still produce; a constructor
  takes the stream and returns what is left of it.
\<close>

type_synonym rng = "nat \<Rightarrow> real"

definition draw :: "nat \<Rightarrow> rng \<Rightarrow> real list \<times> rng" where
  "draw n g = (map g [0..<n], \<lambda>k. g (k + n))"

definition draw2 :: "nat \<Rightarrow> nat \<Rightarrow> rng \<Rightarrow> real list list \<times> rng" where
  "draw2 r c g = (map (\<lambda>i. map (\<lambda>j. g (i * c + j)) [0..<c]) [0..<r], \<lambda>k. g (k + r * c))"

definition Linear_init :: "nat \<Rightarrow> nat \<Rightarrow> rng \<Rightarrow> Linear \<times> rng" where
  "Linear_init n_in n_out g =
     (case draw2 n_out n_in g of (w, g1) \<Rightarrow>
      case draw n_out g1 of (b, g2) \<Rightarrow>
        (\<lparr>in_features = n_in, out_features = n_out, weight = w, bias = b\<rparr>, g2))"

definition LayerNorm_init :: "nat \<Rightarrow> LayerNorm" where
  "LayerNorm_init n =
     \<lparr>normalized_shape = n, ln_weight = replicate n 1, ln_bias = replicate n 0, ln_eps = 1 / 100000\<rparr>"

text \<open>A list comprehension \<^verbatim>\<open>[make() for _ in range(n)]\<close>, without and with a
  constructor that may raise.\<close>

fun build_list :: "nat \<Rightarrow> (rng \<Rightarrow> 'a \<times> rng) \<Rightarrow> rng \<Rightarrow> 'a list \<times> rng" where
  "build_list 0 mk g = ([], g)"
| "build_list (Suc n) mk g =
     (case mk g of (x, g1) \<Rightarrow> case build_list n mk g1 of (xs, g2) \<Rightarrow> (x # xs, g2))"

fun build_list_raise :: "nat \<Rightarrow> (rng \<Rightarrow> error + 'a \<times> rng) \<Rightarrow> rng \<Rightarrow> error + 'a list \<times> rng" where
  "build_list_raise 0 mk g = Inr ([], g)"
| "build_list_raise (Suc n) mk g =
     (case mk g of Inl e \<Rightarrow> Inl e
      | Inr (x, g1) \<Rightarrow>
          (case build_list_raise n mk g1 of Inl e \<Rightarrow> Inl e | Inr (xs, g2) \<Rightarrow> Inr (x # xs, g2)))"

text \<open>\<^verbatim>\<open>MyMSA.__init__(d, n_heads)\<close>. Evaluating \<^verbatim>\<open>d % n_heads\<close> raises when
  \<open>n_heads\<close> is 0; \<^verbatim>\<open>int(d / n_heads)\<close> truncates the quotient.\<close>

definition MyMSA_init :: "nat \<Rightarrow> nat \<Rightarrow> rng \<Rightarrow> error + MyMSA \<times> rng" where
  "MyMSA_init d n_heads g =
     (if n_heads = 0 then Inl ZeroDivisionError
      else if d mod n_heads \<noteq> 0 then Inl AssertionError
      else
        let dh = nat \<lfloor>real d / real n_heads\<rfloor> in
        case build_list n_heads (Linear_init dh dh) g of (qs, g1) \<Rightarrow>
        case build_list n_heads (Linear_init dh dh) g1 of (ks, g2) \<Rightarrow>
        case build_list n_heads (Linear_init dh dh) g2 of (vs, g3) \<Rightarrow>
          Inr (\<lparr>msa_d = d, msa_n_heads = n_heads, q_mappings = qs, k_mappings = ks,
                v_mappings = vs, d_head = dh\<rparr>, g3))"

text \<open>\<^verbatim>\<open>MyVitBlock.__init__(hidden_d, n_heads, mlp_ratio=4)\<close>; the optional argument
  is \<open>None\<close> when the caller leaves it out.\<close>

definition MyVitBlock_init :: "nat \<Rightarrow> nat \<Rightarrow> nat option \<Rightarrow> rng \<Rightarrow> error + MyVitBlock \<times> rng" where
  "MyVitBlock_init hidden_d n_heads mlp_ratio_arg g =
     (let mlp_ratio = (case mlp_ratio_arg of None \<Rightarrow> 4 | Some r \<Rightarrow> r) in
      case MyMSA_init hidden_d n_heads g of Inl e \<Rightarrow> Inl e
      | Inr (msa, g1) \<Rightarrow>
          (case Linear_init hidden_d (mlp_ratio * hidden_d) g1 of (l1, g2) \<Rightarrow>
           case Linear_init (mlp_ratio * hidden_d) hidden_d g2 of (l2, g3) \<Rightarrow>
             Inr (\<lparr>blk_hidden_d = hidden_d, blk_n_heads = n_heads,
                   norm1 = LayerNorm_init hidden_d, mhsa = msa, norm2 = LayerNorm_init hidden_d,
                   blk_mlp = [Linear_layer l1, GELU, Linear_layer l2]\<rparr>, g3)))"

text \<open>
  \<^verbatim>\<open>Myvit.__init__(chw, n_patches, n_blocks, hidden_d, n_heads, out_d)\<close>. Evaluating
  \<^verbatim>\<open>chw[1] % n_patches\<close> raises when \<open>n_patches\<close> is 0. The blocks are built by
  \<^verbatim>\<open>MyVitBlock(hidden_d, n_heads)\<close>, without a third argument.
\<close>

definition Myvit_init ::
  "nat \<times> nat \<times> nat \<Rightarrow> nat \<Rightarrow> nat \<Rightarrow> nat \<Rightarrow> nat \<Rightarrow> nat \<Rightarrow> rng \<Rightarrow> error + Myvit \<times> rng" where
  "Myvit_init chw n_patches n_blocks hidden_d n_heads out_d g =
     (case chw of (c, h, w) \<Rightarrow>
        if n_patches = 0 then Inl ZeroDivisionError
        else if h mod n_patches \<noteq> 0 then Inl AssertionError
        else if w mod n_patches \<noteq> 0 then Inl AssertionError
        else
          let patch_size = (real h / real n_patches, real w / real n_patches);
              input_d = nat \<lfloor>real c * fst patch_size * snd patch_size\<rfloor>
          in
          case Linear_init input_d hidden_d g of (mapper, g1) \<Rightarrow>
          case draw2 1 hidden_d g1 of (token, g2) \<Rightarrow>
          case build_list_raise n_blocks (MyVitBlock_init hidden_d n_heads None) g2 of
            Inl e \<Rightarrow> Inl e
          | Inr (bs, g3) \<Rightarrow>
              (case Linear_init hidden_d out_d g3 of (head, g4) \<Rightarrow>
                 Inr (\<lparr>vit_chw = chw, vit_n_patches = n_patches, vit_n_bloack = n_blocks,
                       vit_n_heads = n_heads, vit_hidden_d = hidden_d,
                       vit_patch_size = patch_size, vit_input_d = input_d,
                       vit_linear_mapper = mapper,
                       vit_class_token = \<lparr>param_data = token, requires_grad = True\<rparr>,
                       vit_pos_embed =
                         \<lparr>param_data = get_positional_embeddings (n_patches ^ 2 + 1) hidden_d,
                          requires_grad = False\<rparr>,
                       vit_blocks = bs,
                       vit_mlp = [Linear_layer head, Softmax]\<rparr>, g4)))"

text \<open>
  A call \<^verbatim>\<open>Myvit(chw, name=value, ...)\<close> with keyword arguments: a keyword that is not
  a parameter of \<^verbatim>\<open>__init__\<close> raises, a parameter left out takes its default.
\<close>

definition Myvit_keywords :: "string list" where
  "Myvit_keywords = [''n_patches'', ''n_blocks'', ''hidden_d'', ''n_heads'', ''out_d'']"

definition keyword :: "(string \<times> nat) list \<Rightarrow> string \<Rightarrow> nat \<Rightarrow> nat" where
  "keyword kwargs name dflt = (case map_of kwargs name of None \<Rightarrow> dflt | Some v \<Rightarrow> v)"

definition Myvit_call ::
  "nat \<times> nat \<times> nat \<Rightarrow> (string \<times> nat) list \<Rightarrow> rng \<Rightarrow> error + Myvit \<times> rng" where
  "Myvit_call chw kwargs g =
     (if list_all (\<lambda>name. name \<in> set Myvit_keywords) (map fst kwargs)
      then Myvit_init chw (keyword kwargs ''n_patches'' 7) (keyword kwargs ''n_blocks'' 2)
             (keyword kwargs ''hidden_d'' 8) (keyword kwargs ''n_heads'' 2)
             (keyword kwargs ''out_d'' 10) g
      else Inl TypeError)"

section \<open>Training loop\<close>

text \<open>
  One step of the optimizer: it writes a new tensor into every parameter that tracks
  gradients and leaves the others as they are. What the optimizer computes is left
  open: \<open>proposal\<close> holds the new tensors.
\<close>

definition step_parameter :: "parameter \<Rightarrow> parameter \<Rightarrow> parameter" where
  "step_parameter p new = (if requires_grad p then p\<lparr>param_data := param_data new\<rparr> else p)"

definition optimizer_step :: "Myvit \<Rightarrow> Myvit \<Rightarrow> Myvit" where
  "optimizer_step self proposal =
     self\<lparr>vit_linear_mapper := vit_linear_mapper proposal,
          vit_class_token := step_parameter (vit_class_token self) (vit_class_token proposal),
          vit_pos_embed := step_parameter (vit_pos_embed self) (vit_pos_embed proposal),
          vit_blocks := vit_blocks proposal,
          vit_mlp := vit_mlp proposal\<rparr>"

text \<open>
  The loop of \<^verbatim>\<open>main\<close> over the batches: a forward pass, then a step of the optimizer,
  whose own state is \<open>opt\<close>. The result lists the model before the first batch and after
  every step, up to the end of the data or the first exception.
\<close>

fun train ::
  "('o \<Rightarrow> Myvit \<Rightarrow> real tensor4 \<times> 'y \<Rightarrow> real list list \<Rightarrow> Myvit \<times> 'o) \<Rightarrow> 'o \<Rightarrow> Myvit \<Rightarrow>
   (real tensor4 \<times> 'y) list \<Rightarrow> Myvit list" where
  "train adam opt model [] = [model]"
| "train adam opt model (batch # batches) =
     model #
     (case Myvit_forward model (fst batch) of Inl e \<Rightarrow> []
      | Inr y_hat \<Rightarrow>
          (case adam opt model batch y_hat of
             (proposal, opt') \<Rightarrow> train adam opt' (optimizer_step model proposal) batches))"

section \<open>Shapes\<close>

text \<open>A tensor of rank 3 has shape \<open>(n, m, l)\<close>.\<close>

definition has_shape3 :: "'a list list list \<Rightarrow> nat \<Rightarrow> nat \<Rightarrow> nat \<Rightarrow> bool" where
  "has_shape3 t n m l =
     (length t = n \<and> list_all (\<lambda>p. length p = m \<and> list_all (\<lambda>v. length v = l) p) t)"

section \<open>What the constructors establish\<close>

text \<open>A linear layer whose weight and bias have the shapes of its two sizes.\<close>

definition Linear_ok :: "Linear \<Rightarrow> bool" where
  "Linear_ok l =
     (length (weight l) = out_features l \<and>
      list_all (\<lambda>row. length row = in_features l) (weight l) \<and>
      length (bias l) = out_features l)"

text \<open>An attention module with at least one head, whose heads split \<open>msa_d\<close> evenly and
  each own three \<open>d_head \<times> d_head\<close> linear layers.\<close>

definition MyMSA_ok :: "MyMSA \<Rightarrow> bool" where
  "MyMSA_ok self =
     (0 < msa_n_heads self \<and> msa_d self = msa_n_heads self * d_head self \<and>
      length (q_mappings self) = msa_n_heads self \<and>
      length (k_mappings self) = msa_n_heads self \<and>
      length (v_mappings self) = msa_n_heads self \<and>
      list_all (\<lambda>l. Linear_ok l \<and> in_features l = d_head self \<and> out_features l = d_head self)
        (q_mappings self @ k_mappings self @ v_mappings self))"

text \<open>A feed-forward network on vectors of width \<open>d\<close>: a linear layer, the GELU, a linear
  layer back to \<open>d\<close>; \<open>mlp_width\<close> is the width in between.\<close>

fun is_mlp :: "module list \<Rightarrow> nat \<Rightarrow> bool" where
  "is_mlp [Linear_layer l1, GELU, Linear_layer l2] d =
     (Linear_ok l1 \<and> Linear_ok l2 \<and> in_features l1 = d \<and>
      in_features l2 = out_features l1 \<and> out_features l2 = d)"
| "is_mlp ms d = False"

fun mlp_width :: "module list \<Rightarrow> nat" where
  "mlp_width (Linear_layer l1 # ms) = out_features l1"
| "mlp_width ms = 0"

definition MyVitBlock_ok :: "MyVitBlock \<Rightarrow> bool" where
  "MyVitBlock_ok self =
     (normalized_shape (norm1 self) = blk_hidden_d self \<and>
      normalized_shape (norm2 self) = blk_hidden_d self \<and>
      MyMSA_ok (mhsa self) \<and> msa_d (mhsa self) = blk_hidden_d self \<and>
      is_mlp (blk_mlp self) (blk_hidden_d self))"

text \<open>A classification head on vectors of width \<open>d\<close>: a linear layer, then the softmax.\<close>

fun is_head :: "module list \<Rightarrow> nat \<Rightarrow> nat \<Rightarrow> bool" where
  "is_head [Linear_layer l, Softmax] d out_d =
     (Linear_ok l \<and> in_features l = d \<and> out_features l = out_d)"
| "is_head ms d out_d = False"

definition Myvit_ok :: "Myvit \<Rightarrow> bool" where
  "Myvit_ok self =
     (case vit_chw self of (c, h, w) \<Rightarrow>
        0 < vit_n_patches self \<and> h mod vit_n_patches self = 0 \<and> w mod vit_n_patches self = 0 \<and>
        vit_input_d self = c * (h div vit_n_patches self) * (w div vit_n_patches self) \<and>
        Linear_ok (vit_linear_mapper self) \<and>
        in_features (vit_linear_mapper self) = vit_input_d self \<and>
        out_features (vit_linear_mapper self) = vit_hidden_d self \<and>
        length (param_data (vit_class_token self)) = 1 \<and>
        list_all (\<lambda>row. length row = vit_hidden_d self) (param_data (vit_class_token self)) \<and>
        vit_pos_embed self =
          \<lparr>param_data = get_positional_embeddings (vit_n_patches self ^ 2 + 1) (vit_hidden_d self),
           requires_grad = False\<rparr> \<and>
        list_all (\<lambda>b. MyVitBlock_ok b \<and> blk_hidden_d b = vit_hidden_d self) (vit_blocks self) \<and>
        is_head (vit_mlp self) (vit_hidden_d self) (mlp_width (vit_mlp self)))"

section \<open>The forward pass as the specification words it\<close>

text \<open>
  The definitions of this section follow the specification, not the program: they say
  what each component computes, entry by entry, and are compared with the program's
  functions in the results below.
\<close>

text \<open>A learned linear map: \<open>W x + b\<close>.\<close>

definition linear_map :: "Linear \<Rightarrow> real list \<Rightarrow> real list" where
  "linear_map l x =
     map (\<lambda>r. (\<Sum>k<in_features l. weight l ! r ! k * x ! k) + bias l ! r) [0..<out_features l]"

text \<open>The contiguous sub-vector of width \<open>dh\<close> that head \<open>h\<close> reads from a token.\<close>

definition head_slice :: "nat \<Rightarrow> nat \<Rightarrow> real list \<Rightarrow> real list" where
  "head_slice dh h token = map (\<lambda>t. token ! (h * dh + t)) [0..<dh]"

text \<open>
  The attention weight of query position \<open>i\<close> for key position \<open>j\<close>: the softmax, over
  all key positions, of the scaled products of the queries \<open>Q\<close> and the keys \<open>K\<close>.
\<close>

definition attention_score :: "real list list \<Rightarrow> real list list \<Rightarrow> nat \<Rightarrow> nat \<Rightarrow> nat \<Rightarrow> real" where
  "attention_score Q K dh i j = (\<Sum>t<dh. Q ! i ! t * K ! j ! t) / sqrt (real dh)"

definition attention_weight :: "real list list \<Rightarrow> real list list \<Rightarrow> nat \<Rightarrow> nat \<Rightarrow> nat \<Rightarrow> real" where
  "attention_weight Q K dh i j =
     exp (attention_score Q K dh i j) / (\<Sum>j'<length K. exp (attention_score Q K dh i j'))"

text \<open>The output of head \<open>h\<close> on one sequence: the weights times the values.\<close>

definition head_spec :: "MyMSA \<Rightarrow> nat \<Rightarrow> real list list \<Rightarrow> real list list" where
  "head_spec self h sequence =
     (let dh = d_head self;
          x = map (head_slice dh h) sequence;
          Q = map (linear_map (q_mappings self ! h)) x;
          K = map (linear_map (k_mappings self ! h)) x;
          V = map (linear_map (v_mappings self ! h)) x
      in map (\<lambda>i. map (\<lambda>t. \<Sum>j<length sequence. attention_weight Q K dh i j * V ! j ! t) [0..<dh])
           [0..<length sequence])"

text \<open>The attention on one sequence: at every position, the heads' outputs one after
  the other along the feature axis.\<close>

definition msa_spec :: "MyMSA \<Rightarrow> real list list \<Rightarrow> real list list" where
  "msa_spec self sequence =
     map (\<lambda>i. concat (map (\<lambda>h. head_spec self h sequence ! i) [0..<msa_n_heads self]))
       [0..<length sequence]"

text \<open>The sum of two matrices of one shape.\<close>

definition mat_add :: "real list list \<Rightarrow> real list list \<Rightarrow> real list list" where
  "mat_add a b = map2 (map2 (+)) a b"

text \<open>The feed-forward network on one token: linear, GELU, linear.\<close>

fun mlp_spec :: "module list \<Rightarrow> real list \<Rightarrow> real list" where
  "mlp_spec [Linear_layer l1, GELU, Linear_layer l2] x = linear_map l2 (map gelu (linear_map l1 x))"
| "mlp_spec ms x = x"

text \<open>The block on one sequence: \<open>x' = x + MHSA (LayerNorm\<^sub>1 x)\<close>, then
  \<open>x' + MLP (LayerNorm\<^sub>2 x')\<close>.\<close>

definition block_spec :: "MyVitBlock \<Rightarrow> real list list \<Rightarrow> real list list" where
  "block_spec self x =
     (let x' = mat_add x (msa_spec (mhsa self) (map (layer_norm (norm1 self)) x))
      in mat_add x' (map (\<lambda>token. mlp_spec (blk_mlp self) (layer_norm (norm2 self) token)) x'))"

text \<open>
  The steps of the model's forward pass, one definition per step of the specification.
  Step 1 is \<open>patchify\<close>.
\<close>

definition embed_patches :: "Myvit \<Rightarrow> real list list list \<Rightarrow> error + real list list list" where
  "embed_patches self patches = Linear3 (vit_linear_mapper self) patches"

definition prepend_class_token :: "Myvit \<Rightarrow> real list list list \<Rightarrow> error + real list list list" where
  "prepend_class_token self tokens =
     (if tokens = [] then Inl RuntimeError
      else map_raise (vstack (param_data (vit_class_token self))) tokens)"

definition add_positional :: "Myvit \<Rightarrow> nat \<Rightarrow> real list list list \<Rightarrow> error + real list list list" where
  "add_positional self n sequences = add3 sequences (replicate n (param_data (vit_pos_embed self)))"

definition apply_blocks :: "Myvit \<Rightarrow> real list list list \<Rightarrow> error + real list list list" where
  "apply_blocks self x = for_each (vit_blocks self) MyVitBlock_forward x"

definition class_token_only :: "real list list list \<Rightarrow> error + real list list" where
  "class_token_only x = map_raise (\<lambda>sequence. item sequence 0) x"

definition classify :: "Myvit \<Rightarrow> real list list \<Rightarrow> error + real list list" where
  "classify self x = Sequential2 (vit_mlp self) x"

text \<open>
  Steps 2 to 4 on the patches of one image, in closed form: the class token comes
  first, the embedded patches follow, and row \<open>k\<close> of the positional table is added to
  row \<open>k\<close> of the result, so that the class token receives row 0 of the table.
\<close>

definition embed_spec :: "Myvit \<Rightarrow> real list list \<Rightarrow> real list list" where
  "embed_spec self patches =
     mat_add (param_data (vit_class_token self) @ map (linear_map (vit_linear_mapper self)) patches)
       (param_data (vit_pos_embed self))"

section \<open>Loops and shapes: auxiliary facts\<close>

lemma for_each_total:
  assumes "I s" and "\<And>x s. x \<in> set xs \<Longrightarrow> I s \<Longrightarrow> \<exists>s'. body x s = Inr s' \<and> I s'"
  shows "\<exists>s'. for_each xs body s = Inr s' \<and> I s'"
  using assms
proof (induction xs arbitrary: s)
  case Nil
  then show ?case by simp
next
  case (Cons x xs)
  from Cons.prems obtain s1 where s1: "body x s = Inr s1" "I s1" by (meson list.set_intros(1))
  have "\<exists>s'. for_each xs body s1 = Inr s' \<and> I s'"
    by (rule Cons.IH[OF s1(2)]) (simp add: Cons.prems(2))
  with s1 show ?case by simp
qed

lemma for_each_preserves:
  assumes "for_each xs body s = Inr s'" and "I s"
    and "\<And>x s s'. x \<in> set xs \<Longrightarrow> I s \<Longrightarrow> body x s = Inr s' \<Longrightarrow> I s'"
  shows "I s'"
  using assms
proof (induction xs arbitrary: s)
  case Nil
  then show ?case by simp
next
  case (Cons x xs)
  from Cons.prems(1) obtain s1 where s1: "body x s = Inr s1" "for_each xs body s1 = Inr s'"
    by (auto split: sum.splits)
  have "I s1" using Cons.prems(3)[of x s s1] s1(1) Cons.prems(2) by simp
  show ?case
    by (rule Cons.IH[OF s1(2) \<open>I s1\<close>]) (use Cons.prems(3) in auto)
qed

lemma has_shape3_zeros3: "has_shape3 (zeros3 n m l) n m l"
  by (simp add: has_shape3_def zeros3_def list_all_iff)

lemma has_shape3_nth:
  "has_shape3 t n m l \<Longrightarrow> idx < n \<Longrightarrow> length (t ! idx) = m"
  "has_shape3 t n m l \<Longrightarrow> idx < n \<Longrightarrow> k < m \<Longrightarrow> length (t ! idx ! k) = l"
  by (auto simp: has_shape3_def list_all_length)

lemma has_shape3_update:
  assumes "has_shape3 t n m l" "length v = l"
  shows "has_shape3 (t[idx := (t ! idx)[k := v]]) n m l"
proof (cases "idx < length t")
  case False
  then have "t[idx := (t ! idx)[k := v]] = t" by (simp add: list_update_beyond)
  then show ?thesis using assms(1) by simp
next
  case True
  let ?q = "(t ! idx)[k := v]"
  from assms(1) True have old: "length (t ! idx) = m" "\<And>u. u \<in> set (t ! idx) \<Longrightarrow> length u = l"
    by (auto simp: has_shape3_def list_all_iff)
  have q: "length ?q = m \<and> (\<forall>u\<in>set ?q. length u = l)"
    using old assms(2) set_update_subset_insert[of "t ! idx" k v] by auto
  have "\<And>p. p \<in> set (t[idx := ?q]) \<Longrightarrow> length p = m \<and> (\<forall>u\<in>set p. length u = l)"
  proof -
    fix p assume "p \<in> set (t[idx := ?q])"
    then have "p = ?q \<or> p \<in> set t" using set_update_subset_insert[of t idx ?q] by auto
    then show "length p = m \<and> (\<forall>u\<in>set p. length u = l)"
      using q assms(1) by (auto simp: has_shape3_def list_all_iff)
  qed
  then show ?thesis using assms(1) by (simp add: has_shape3_def list_all_iff)
qed

lemma setitem2_shape:
  assumes "has_shape3 t n m l" "setitem2 t idx k v = Inr t'"
  shows "has_shape3 t' n m l"
proof -
  from assms(2) have b: "idx < length t" "k < length (t ! idx)"
    by (auto simp: setitem2_def split: if_splits)
  then have len: "length (t ! idx ! k) = l"
    using assms(1) by (auto simp: has_shape3_def list_all_length)
  from assms(2) b len have "t' = t[idx := (t ! idx)[k := v]] \<and> length v = l \<or>
      t' = t[idx := (t ! idx)[k := replicate l (hd v)]]"
    by (auto simp: setitem2_def Let_def split: if_splits)
  then show ?thesis using has_shape3_update[OF assms(1)] by auto
qed

lemma setitem2_total:
  assumes "has_shape3 t n m l" "idx < n" "k < m" "length v = l"
  shows "setitem2 t idx k v = Inr (t[idx := (t ! idx)[k := v]])"
  using assms has_shape3_nth[OF assms(1)]
  by (simp add: setitem2_def has_shape3_def)

lemma length_concat_const:
  "(\<And>x. x \<in> set xs \<Longrightarrow> length x = k) \<Longrightarrow> length (concat xs) = length xs * k"
  by (induction xs) auto

lemma concat_of_concat: "concat (concat xss) = concat (map concat xss)"
  by (induction xss) auto

lemma length_flatten3_slice3:
  assumes "list_all (\<lambda>channel. length channel = h \<and> list_all (\<lambda>row. length row = w) channel) img"
    and "r1 \<le> h" "c1 \<le> w"
  shows "length (flatten3 (slice3 img r0 r1 c0 c1)) = length img * ((r1 - r0) * (c1 - c0))"
proof -
  have rows: "\<And>ch. ch \<in> set img \<Longrightarrow> length (concat (map (slice c0 c1) (slice r0 r1 ch))) = (r1 - r0) * (c1 - c0)"
  proof -
    fix ch assume ch: "ch \<in> set img"
    with assms(1) have l: "length ch = h" and r: "\<And>row. row \<in> set ch \<Longrightarrow> length row = w"
      by (auto simp: list_all_iff)
    have "\<And>x. x \<in> set (map (slice c0 c1) (slice r0 r1 ch)) \<Longrightarrow> length x = c1 - c0"
    proof -
      fix x assume "x \<in> set (map (slice c0 c1) (slice r0 r1 ch))"
      then obtain row where "row \<in> set ch" "x = slice c0 c1 row"
        by (auto simp: slice_def dest: in_set_takeD in_set_dropD)
      with r assms(3) show "length x = c1 - c0" by (simp add: slice_def)
    qed
    then have "length (concat (map (slice c0 c1) (slice r0 r1 ch))) = length (map (slice c0 c1) (slice r0 r1 ch)) * (c1 - c0)"
      by (rule length_concat_const)
    then have "length (concat (map (slice c0 c1) (slice r0 r1 ch))) = length (slice r0 r1 ch) * (c1 - c0)"
      by simp
    also have "length (slice r0 r1 ch) = r1 - r0" using l assms(2) by (simp add: slice_def)
    finally show "length (concat (map (slice c0 c1) (slice r0 r1 ch))) = (r1 - r0) * (c1 - c0)" .
  qed
  have "flatten3 (slice3 img r0 r1 c0 c1) = concat (map (\<lambda>ch. concat (map (slice c0 c1) (slice r0 r1 ch))) img)"
    by (simp add: flatten3_def slice3_def concat_of_concat o_def)
  then show ?thesis using length_concat_const[of "map (\<lambda>ch. concat (map (slice c0 c1) (slice r0 r1 ch))) img" "(r1 - r0) * (c1 - c0)"] rows
    by auto
qed


lemma patchify_shape:
  assumes "patchify images P = Inr patches" "shape4 images = (n, c, h, w)"
  shows "has_shape3 patches n (P ^ 2) (h * w div P ^ 2)"
proof -
  let ?I = "\<lambda>s. has_shape3 s n (P ^ 2) (h * w div P ^ 2)"
  let ?s = "h div P"
  let ?inner = "\<lambda>idx img i. (\<lambda>j patches. 
                   let patch = slice3 img (i * ?s) ((i + 1) * ?s) (j * ?s) ((j + 1) * ?s)
                   in setitem2 patches idx (i * P + j) (flatten3 patch))"
  from assms have run: "for_each (List.enumerate 0 (items4 images)) (\<lambda>(idx, img).
               for_each [0..<P] (\<lambda>i. for_each [0..<P] (?inner idx img i)))
               (zeros3 n (P ^ 2) (h * w div P ^ 2)) = Inr patches"
    by (simp add: patchify_def Let_def split: if_splits)
  have inner: "\<And>idx img i j s s'. ?I s \<Longrightarrow> ?inner idx img i j s = Inr s' \<Longrightarrow> ?I s'"
    by (simp add: Let_def) (erule (1) setitem2_shape)
  have mid: "?I s'" if "?I s" "for_each [0..<P] (?inner idx img i) s = Inr s'" for idx img i s s'
    by (rule for_each_preserves[where I = ?I, OF that(2,1)]) (rule inner)
  have outer: "?I s'"
    if "?I s" "for_each [0..<P] (\<lambda>i. for_each [0..<P] (?inner idx img i)) s = Inr s'"
    for idx img s s'
    by (rule for_each_preserves[where I = ?I, OF that(2,1)]) (rule mid)
  show ?thesis
    by (rule for_each_preserves[where I = ?I, OF run has_shape3_zeros3]) (auto intro: outer)
qed

lemma patch_arith:
  assumes "0 < (P::nat)" "h mod P = 0" "i < P"
  shows "(i + 1) * (h div P) \<le> h" "(i + 1) * (h div P) - i * (h div P) = h div P"
    "h * h div P ^ 2 = (h div P) * (h div P)"
proof -
  from assms(2) have "P dvd h" by (simp add: mod_eq_0_iff_dvd)
  then have h: "h = P * (h div P)" by simp
  have "(i + 1) * (h div P) \<le> P * (h div P)" using assms(3) by (intro mult_le_mono1) simp
  with h show "(i + 1) * (h div P) \<le> h" by simp
  show "(i + 1) * (h div P) - i * (h div P) = h div P" by simp
  have "h * h = (h div P) * (h div P) * P ^ 2" 
    by (subst h, subst (2) h) (simp add: power2_eq_square)
  then show "h * h div P ^ 2 = (h div P) * (h div P)" using assms(1) by simp
qed

lemma patchify_total:
  assumes ok: "tensor4_ok images" and sh: "shape4 images = (n, 1, h, h)"
    and P: "0 < P" "h mod P = 0"
  shows "\<exists>patches. patchify images P = Inr patches"
proof -
  let ?L = "h * h div P ^ 2"
  let ?I = "\<lambda>s. has_shape3 s n (P ^ 2) ?L"
  let ?s = "h div P"
  let ?inner = "\<lambda>idx img i. (\<lambda>j patches. 
                   let patch = slice3 img (i * ?s) ((i + 1) * ?s) (j * ?s) ((j + 1) * ?s)
                   in setitem2 patches idx (i * P + j) (flatten3 patch))"
  have inner: "\<exists>s'. ?inner idx img i j s = Inr s' \<and> ?I s'"
    if "?I s" "idx < n" "img \<in> set (items4 images)" "i < P" "j < P" for idx img i j s
  proof -
    from ok sh that(3) have img: "length img = 1"
      "list_all (\<lambda>channel. length channel = h \<and> list_all (\<lambda>row. length row = h) channel) img"
      by (auto simp: tensor4_ok_def list_all_iff)
    have len: "length (flatten3 (slice3 img (i * ?s) ((i + 1) * ?s) (j * ?s) ((j + 1) * ?s))) = ?L"
      using length_flatten3_slice3[OF img(2) patch_arith(1)[OF P that(4)] patch_arith(1)[OF P that(5)], of "i * ?s" "j * ?s"]
        img(1) patch_arith(2)[OF P that(4)] patch_arith(2)[OF P that(5)] patch_arith(3)[OF P that(4)]
      by simp
    have "i * P + j < P * P"
    proof -
      have "i * P + j < i * P + P" using that(5) by simp
      also have "\<dots> = (i + 1) * P" by simp
      also have "\<dots> \<le> P * P" using that(4) by (intro mult_le_mono1) simp
      finally show ?thesis .
    qed
    then have k: "i * P + j < P ^ 2" by (simp add: power2_eq_square)
    show ?thesis
      using setitem2_total[OF that(1,2) k len] has_shape3_update[OF that(1) len]
      by (simp add: Let_def)
  qed
  have mid: "\<exists>s'. for_each [0..<P] (?inner idx img i) s = Inr s' \<and> ?I s'"
    if "?I s" "idx < n" "img \<in> set (items4 images)" "i < P" for idx img i s
    by (rule for_each_total[where I = ?I, OF that(1)]) (use inner that in auto)
  have outer: "\<exists>s'. for_each [0..<P] (\<lambda>i. for_each [0..<P] (?inner idx img i)) s = Inr s' \<and> ?I s'"
    if "?I s" "idx < n" "img \<in> set (items4 images)" for idx img s
    by (rule for_each_total[where I = ?I, OF that(1)]) (use mid that in auto)
  have len: "length (items4 images) = n" using ok sh by (simp add: tensor4_ok_def)
  have "\<exists>s'. for_each (List.enumerate 0 (items4 images)) (\<lambda>(idx, img).
               for_each [0..<P] (\<lambda>i. for_each [0..<P] (?inner idx img i)))
               (zeros3 n (P ^ 2) ?L) = Inr s' \<and> ?I s'"
  proof (rule for_each_total[where I = ?I, OF has_shape3_zeros3])
    fix x and s :: "'a list list list"
    assume x: "x \<in> set (List.enumerate 0 (items4 images))" and s: "?I s"
    obtain idx img where [simp]: "x = (idx, img)" by (cases x)
    from x len have "idx < n" "img \<in> set (items4 images)"
      by (auto simp: in_set_enumerate_eq)
    from outer[OF s this] show "\<exists>s'. (case x of (idx, img) \<Rightarrow>
               for_each [0..<P] (\<lambda>i. for_each [0..<P] (?inner idx img i))) s = Inr s' \<and> ?I s'"
      by simp
  qed
  then show ?thesis using sh P(1) by (auto simp: patchify_def Let_def)
qed

section \<open>Patch extraction: results\<close>

text \<open>
  C1. The claim: for every batch of shape \<open>(N, C, H, W)\<close> with \<open>H = W\<close> and \<open>H\<close>
  divisible by \<open>P\<close>, \<open>patchify\<close> returns a tensor of shape \<open>(N, P\<^sup>2, C (H/P) (W/P))\<close>.
  On a batch of one image with two channels of one pixel each and \<open>P = 1\<close>, the program
  allocates rows of length \<open>1 * 1 div 1 = 1\<close> for patches that hold \<open>2\<close> entries, and the
  assignment of the first patch raises.
\<close>

theorem patchify_two_channels_raises:
  "patchify \<lparr>shape4 = (1, 2, 1, 1), items4 = [[[[1 :: real]], [[2]]]]\<rparr> 1 = Inl RuntimeError"
  by code_simp

text \<open>
  C2, as stated, fails: a \<open>3 \<times> 3\<close> image with one channel and \<open>P = 2\<close> is accepted,
  although 3 is not divisible by 2. Each patch is one pixel, repeated along a row of
  length \<open>9 div 4 = 2\<close>.
\<close>

theorem patchify_accepts_indivisible:
  "(3 :: nat) mod 2 \<noteq> 0 \<and>
   patchify \<lparr>shape4 = (1, 1, 3, 3), items4 = [[[[1, 2, 3], [4, 5, 6], [7, 8, 9 :: real]]]]\<rparr> 2
     = Inr [[[1, 1], [2, 2], [4, 4], [5, 5]]]"
  by code_simp

text \<open>
  C2, amended: on a well-formed batch of shape \<open>(n, c, h, w)\<close>, \<open>patchify\<close> raises an
  assertion error whenever \<open>h \<noteq> w\<close>; and on a square batch with one channel, a positive
  patch count \<open>P\<close> and \<open>h\<close> divisible by \<open>P\<close> it raises nothing and returns a tensor of
  shape \<open>(n, P\<^sup>2, (h div P) (h div P))\<close>.
\<close>

theorem patchify_raises_when:
  assumes "tensor4_ok images" and "shape4 images = (n, c, h, w)"
  shows "(h \<noteq> w \<longrightarrow> patchify images P = Inl AssertionError) \<and>
         (h = w \<and> c = 1 \<and> 0 < P \<and> h mod P = 0 \<longrightarrow>
            (\<exists>patches. patchify images P = Inr patches \<and>
               has_shape3 patches n (P ^ 2) ((h div P) * (h div P))))"
proof (intro conjI impI)
  assume "h \<noteq> w"
  then show "patchify images P = Inl AssertionError"
    using assms(2) by (simp add: patchify_def)
next
  assume a: "h = w \<and> c = 1 \<and> 0 < P \<and> h mod P = 0"
  then have sh: "shape4 images = (n, 1, h, h)" and P: "0 < P" "h mod P = 0"
    using assms(2) by auto
  from patchify_total[OF assms(1) sh P] obtain patches where p: "patchify images P = Inr patches"
    by blast
  have "has_shape3 patches n (P ^ 2) (h * h div P ^ 2)"
    by (rule patchify_shape[OF p sh])
  also have "h * h div P ^ 2 = (h div P) * (h div P)"
    by (rule patch_arith(3)[OF P, of 0]) (rule P(1))
  finally have "has_shape3 patches n (P ^ 2) ((h div P) * (h div P))" .
  with p show "\<exists>patches. patchify images P = Inr patches \<and>
               has_shape3 patches n (P ^ 2) ((h div P) * (h div P))" by blast
qed

theorem patchify_raises_when_witness:
  "patchify \<lparr>shape4 = (1, 1, 1, 2), items4 = [[[[1, 2 :: real]]]]\<rparr> 1 = Inl AssertionError \<and>
   (\<exists>patches. patchify \<lparr>shape4 = (1, 1, 2, 2), items4 = [[[[1, 2], [3, 4 :: real]]]]\<rparr> 2 = Inr patches \<and>
      has_shape3 patches 1 (2 ^ 2) ((2 div 2) * (2 div 2)))"
proof -
  have a: "tensor4_ok \<lparr>shape4 = (1, 1, 1, 2), items4 = [[[[1, 2 :: real]]]]\<rparr>"
    by (simp add: tensor4_ok_def)
  have b: "tensor4_ok \<lparr>shape4 = (1, 1, 2, 2), items4 = [[[[1, 2], [3, 4 :: real]]]]\<rparr>"
    by (simp add: tensor4_ok_def)
  show ?thesis
    using patchify_raises_when[OF a, of 1 1 1 2 1] patchify_raises_when[OF b, of 1 1 2 2 2]
    by simp
qed

section \<open>Positional embeddings: results\<close>

lemma fold_row_update:
  assumes "i < length r" "m \<le> length (r ! i)"
  shows "fold (\<lambda>j res. res[i := (res ! i)[j := g j]]) [0..<m] r = r[i := map g [0..<m] @ drop m (r ! i)]"
  using assms(2)
proof (induction m)
  case 0
  then show ?case by simp
next
  case (Suc m)
  let ?A = "map g [0..<m] @ drop m (r ! i)"
  from Suc.prems have m: "m < length (r ! i)" by simp
  have "fold (\<lambda>j res. res[i := (res ! i)[j := g j]]) [0..<Suc m] r
      = (r[i := ?A])[i := ((r[i := ?A]) ! i)[m := g m]]"
    using Suc.IH m by simp
  also have "\<dots> = r[i := ?A[m := g m]]" using assms(1) by simp
  also have "?A[m := g m] = map g [0..<m] @ (drop m (r ! i))[0 := g m]"
    by (simp add: list_update_append)
  also have "(drop m (r ! i))[0 := g m] = g m # drop (Suc m) (r ! i)"
    using m by (simp add: Cons_nth_drop_Suc[symmetric])
  finally show ?case by simp
qed

lemma fold_table_update:
  assumes "n \<le> length r" "\<And>i. i < n \<Longrightarrow> length (r ! i) = d"
  shows "fold (\<lambda>i. fold (\<lambda>j res. res[i := (res ! i)[j := g i j]]) [0..<d]) [0..<n] r
         = map (\<lambda>i. map (g i) [0..<d]) [0..<n] @ drop n r"
  using assms
proof (induction n)
  case 0
  then show ?case by simp
next
  case (Suc n)
  let ?B = "map (\<lambda>i. map (g i) [0..<d]) [0..<n] @ drop n r"
  from Suc.prems have n: "n < length r" and len: "length (r ! n) = d" by simp_all
  have B: "n < length ?B" "?B ! n = r ! n" using n by (simp_all add: nth_append)
  have "fold (\<lambda>i. fold (\<lambda>j res. res[i := (res ! i)[j := g i j]]) [0..<d]) [0..<Suc n] r
      = fold (\<lambda>j res. res[n := (res ! n)[j := g n j]]) [0..<d] ?B"
    using Suc.IH Suc.prems by simp
  also have "\<dots> = ?B[n := map (g n) [0..<d] @ drop d (?B ! n)]"
    by (rule fold_row_update) (use B len in simp_all)
  also have "\<dots> = ?B[n := map (g n) [0..<d]]" using B len by simp
  also have "\<dots> = map (\<lambda>i. map (g i) [0..<d]) [0..<n] @ (drop n r)[0 := map (g n) [0..<d]]"
    by (simp add: list_update_append)
  also have "(drop n r)[0 := map (g n) [0..<d]] = map (g n) [0..<d] # drop (Suc n) r"
    using n by (simp add: Cons_nth_drop_Suc[symmetric])
  finally show ?case by simp
qed

lemma get_positional_embeddings_table:
  "get_positional_embeddings L D =
     map (\<lambda>i. map (\<lambda>j. if j mod 2 = 0 then sin (real i / (10000 powr (real j / real D)))
                         else cos (real i / (10000 powr ((real j - 1) / real D)))) [0..<D]) [0..<L]"
  unfolding get_positional_embeddings_def
  by (subst fold_table_update[where d = D]) (simp_all add: ones2_def)

lemma get_positional_embeddings_shape:
  "length (get_positional_embeddings L D) = L"
  "pos < L \<Longrightarrow> length (get_positional_embeddings L D ! pos) = D"
  by (simp_all add: get_positional_embeddings_table)

text \<open>
  C7. For every sequence length \<open>L\<close> and dimension \<open>D\<close> the generator returns an
  \<open>L \<times> D\<close> table whose entry \<open>(pos, dim)\<close> is \<open>sin (pos / 10000\<^bsup>dim/D\<^esup>)\<close> for even
  \<open>dim\<close> and \<open>cos (pos / 10000\<^bsup>(dim-1)/D\<^esup>)\<close> for odd \<open>dim\<close>; entry \<open>(pos, 0)\<close> is
  \<open>sin pos\<close>; and the table for \<open>L = 1\<close>, \<open>D = 2\<close> is \<open>[[0, 1]]\<close>. The table is a function
  of \<open>(L, D)\<close> alone: the generator reads and writes no other state.
\<close>

theorem positional_embeddings_entries:
  "length (get_positional_embeddings L D) = L \<and>
   (\<forall>pos<L. length (get_positional_embeddings L D ! pos) = D \<and>
      (\<forall>dim<D. get_positional_embeddings L D ! pos ! dim =
         (if even dim then sin (real pos / 10000 powr (real dim / real D))
          else cos (real pos / 10000 powr ((real dim - 1) / real D)))) \<and>
      (0 < D \<longrightarrow> get_positional_embeddings L D ! pos ! 0 = sin (real pos))) \<and>
   get_positional_embeddings 1 2 = [[0, 1]]"
proof -
  have "get_positional_embeddings 1 2 = [[0, 1]]"
    by (simp add: get_positional_embeddings_table upt_conv_Cons)
  then show ?thesis
    by (simp add: get_positional_embeddings_table even_iff_mod_2_eq_zero)
qed

theorem positional_embeddings_entries_witness:
  "length (get_positional_embeddings 2 2) = 2 \<and>
   length (get_positional_embeddings 2 2 ! 1) = 2 \<and>
   get_positional_embeddings 2 2 ! 1 ! 1 = cos (real 1 / 10000 powr ((real 1 - 1) / real 2)) \<and>
   get_positional_embeddings 2 2 ! 1 ! 0 = sin (real 1)"
  using positional_embeddings_entries[of 2 2] by simp

section \<open>Construction: auxiliary facts\<close>


lemma draw_length: "draw n g = (v, g') \<Longrightarrow> length v = n"
  by (auto simp: draw_def)

lemma draw2_shape: "draw2 r c g = (m, g') \<Longrightarrow> length m = r \<and> list_all (\<lambda>row. length row = c) m"
  by (auto simp: draw2_def list_all_iff)

lemma Linear_init_ok:
  assumes "Linear_init n_in n_out g = (l, g')"
  shows "Linear_ok l \<and> in_features l = n_in \<and> out_features l = n_out"
proof -
  obtain w g1 where w: "draw2 n_out n_in g = (w, g1)" by (cases "draw2 n_out n_in g")
  obtain b g2 where b: "draw n_out g1 = (b, g2)" by (cases "draw n_out g1")
  from assms w b have l: "l = \<lparr>in_features = n_in, out_features = n_out, weight = w, bias = b\<rparr>"
    by (simp add: Linear_init_def)
  show ?thesis using draw2_shape[OF w] draw_length[OF b] by (simp add: l Linear_ok_def)
qed

lemma build_list_all:
  assumes "\<And>g x g'. mk g = (x, g') \<Longrightarrow> Q x" "build_list n mk g = (xs, g')"
  shows "length xs = n \<and> list_all Q xs"
  using assms(2)
proof (induction n arbitrary: g xs g')
  case 0
  then show ?case by simp
next
  case (Suc n)
  obtain x g1 where x: "mk g = (x, g1)" by (cases "mk g")
  obtain ys g2 where ys: "build_list n mk g1 = (ys, g2)" by (cases "build_list n mk g1")
  from Suc.prems x ys have "xs = x # ys" by simp
  then show ?case using Suc.IH[OF ys] assms(1)[OF x] by simp
qed

lemma build_list_raise_fails:
  assumes "\<And>g. mk g = Inl e" "0 < n"
  shows "build_list_raise n mk g = Inl e"
  using assms(2) by (cases n) (simp_all add: assms(1))

lemma build_list_raise_all:
  assumes "\<And>g. \<exists>x g'. mk g = Inr (x, g') \<and> Q x"
  shows "\<exists>xs g'. build_list_raise n mk g = Inr (xs, g') \<and> length xs = n \<and> list_all Q xs"
proof (induction n arbitrary: g)
  case 0
  then show ?case by simp
next
  case (Suc n)
  from assms obtain x g1 where x: "mk g = Inr (x, g1)" "Q x" by blast
  from Suc.IH obtain ys g2 where ys: "build_list_raise n mk g1 = Inr (ys, g2)"
    "length ys = n" "list_all Q ys" by blast
  show ?case using x ys by simp
qed

lemma MyMSA_init_fails:
  "MyMSA_init d 0 g = Inl ZeroDivisionError"
  "0 < n_heads \<Longrightarrow> d mod n_heads \<noteq> 0 \<Longrightarrow> MyMSA_init d n_heads g = Inl AssertionError"
  by (simp_all add: MyMSA_init_def)

lemma floor_quotient:
  assumes "0 < (k::nat)" "d mod k = 0"
  shows "nat \<lfloor>real d / real k\<rfloor> = d div k"
proof -
  from assms(2) have "k dvd d" by (simp add: mod_eq_0_iff_dvd)
  then have "real d / real k = real (d div k)" using assms(1) by (simp add: real_of_nat_div)
  then show ?thesis by simp
qed

lemma MyMSA_init_ok:
  assumes "0 < n_heads" "d mod n_heads = 0"
  shows "\<exists>m g'. MyMSA_init d n_heads g = Inr (m, g') \<and> MyMSA_ok m \<and> msa_d m = d \<and>
           msa_n_heads m = n_heads \<and> d_head m = d div n_heads"
proof -
  let ?dh = "d div n_heads"
  let ?Q = "\<lambda>l. Linear_ok l \<and> in_features l = ?dh \<and> out_features l = ?dh"
  have mk: "\<And>g x g'. Linear_init ?dh ?dh g = (x, g') \<Longrightarrow> ?Q x" by (rule Linear_init_ok)
  obtain qs g1 where qs: "build_list n_heads (Linear_init ?dh ?dh) g = (qs, g1)"
    by (cases "build_list n_heads (Linear_init ?dh ?dh) g")
  obtain ks g2 where ks: "build_list n_heads (Linear_init ?dh ?dh) g1 = (ks, g2)"
    by (cases "build_list n_heads (Linear_init ?dh ?dh) g1")
  obtain vs g3 where vs: "build_list n_heads (Linear_init ?dh ?dh) g2 = (vs, g3)"
    by (cases "build_list n_heads (Linear_init ?dh ?dh) g2")
  note all = build_list_all[where Q = ?Q, OF mk qs] build_list_all[where Q = ?Q, OF mk ks]
    build_list_all[where Q = ?Q, OF mk vs]
  have d: "d = n_heads * ?dh" using assms(2) by (simp add: mod_eq_0_iff_dvd)
  have "MyMSA_init d n_heads g = Inr (\<lparr>msa_d = d, msa_n_heads = n_heads, q_mappings = qs,
      k_mappings = ks, v_mappings = vs, d_head = ?dh\<rparr>, g3)"
    using assms qs ks vs by (simp add: MyMSA_init_def floor_quotient Let_def)
  moreover have "MyMSA_ok \<lparr>msa_d = d, msa_n_heads = n_heads, q_mappings = qs,
      k_mappings = ks, v_mappings = vs, d_head = ?dh\<rparr>"
    using all assms(1) d by (simp add: MyMSA_ok_def)
  ultimately show ?thesis by simp
qed

lemma MyVitBlock_init_fails:
  "0 < n_heads \<Longrightarrow> hidden_d mod n_heads \<noteq> 0 \<Longrightarrow> MyVitBlock_init hidden_d n_heads r g = Inl AssertionError"
  "MyVitBlock_init hidden_d 0 r g = Inl ZeroDivisionError"
  by (simp_all add: MyVitBlock_init_def MyMSA_init_fails Let_def)

lemma MyVitBlock_init_ok:
  assumes "0 < n_heads" "hidden_d mod n_heads = 0"
  shows "\<exists>b g'. MyVitBlock_init hidden_d n_heads r g = Inr (b, g') \<and> MyVitBlock_ok b \<and>
           blk_hidden_d b = hidden_d \<and>
           mlp_width (blk_mlp b) = (case r of None \<Rightarrow> 4 | Some k \<Rightarrow> k) * hidden_d"
proof -
  let ?r = "case r of None \<Rightarrow> 4 | Some k \<Rightarrow> k"
  from MyMSA_init_ok[OF assms, of g] obtain m g1 where
    m: "MyMSA_init hidden_d n_heads g = Inr (m, g1)" "MyMSA_ok m" "msa_d m = hidden_d" by blast
  obtain l1 g2 where l1: "Linear_init hidden_d (?r * hidden_d) g1 = (l1, g2)"
    by (cases "Linear_init hidden_d (?r * hidden_d) g1")
  obtain l2 g3 where l2: "Linear_init (?r * hidden_d) hidden_d g2 = (l2, g3)"
    by (cases "Linear_init (?r * hidden_d) hidden_d g2")
  have "MyVitBlock_init hidden_d n_heads r g = Inr (\<lparr>blk_hidden_d = hidden_d, blk_n_heads = n_heads,
                   norm1 = LayerNorm_init hidden_d, mhsa = m, norm2 = LayerNorm_init hidden_d,
                   blk_mlp = [Linear_layer l1, GELU, Linear_layer l2]\<rparr>, g3)"
    using m(1) l1 l2 by (simp add: MyVitBlock_init_def Let_def)
  then show ?thesis
    using m(2,3) Linear_init_ok[OF l1] Linear_init_ok[OF l2]
    by (simp add: MyVitBlock_ok_def LayerNorm_init_def)
qed



lemma input_d_exact:
  assumes "0 < (P::nat)" "h mod P = 0" "w mod P = 0"
  shows "nat \<lfloor>real c * (real h / real P) * (real w / real P)\<rfloor> = c * (h div P) * (w div P)"
proof -
  from assms have "P dvd h" "P dvd w" by (simp_all add: mod_eq_0_iff_dvd)
  then have "real h / real P = real (h div P)" "real w / real P = real (w div P)"
    using assms(1) by (simp_all add: real_of_nat_div)
  then have "real c * (real h / real P) * (real w / real P) = real (c * (h div P) * (w div P))"
    by simp
  then show ?thesis by (simp only: floor_of_nat nat_int)
qed

lemma blocks_built:
  assumes "nb = 0 \<or> (0 < nh \<and> hid mod nh = 0)"
  shows "\<exists>bs g'. build_list_raise nb (MyVitBlock_init hid nh None) g = Inr (bs, g') \<and> length bs = nb \<and>
           list_all (\<lambda>b. MyVitBlock_ok b \<and> blk_hidden_d b = hid \<and> mlp_width (blk_mlp b) = 4 * hid) bs"
proof (cases "nb = 0")
  case True
  then show ?thesis by simp
next
  case False
  with assms have nh: "0 < nh" "hid mod nh = 0" by auto
  show ?thesis
    by (rule build_list_raise_all) (use MyVitBlock_init_ok[OF nh, of None] in simp)
qed

lemma Myvit_init_fails_patches:
  assumes "0 < P" "h mod P \<noteq> 0 \<or> w mod P \<noteq> 0"
  shows "Myvit_init (c, h, w) P nb hid nh od g = Inl AssertionError"
  using assms by (auto simp: Myvit_init_def)

lemma Myvit_init_fails_heads:
  assumes "0 < P" "h mod P = 0" "w mod P = 0" "0 < nb" "0 < nh" "hid mod nh \<noteq> 0"
  shows "Myvit_init (c, h, w) P nb hid nh od g = Inl AssertionError"
proof -
  have "\<And>g. build_list_raise nb (MyVitBlock_init hid nh None) g = Inl AssertionError"
    by (rule build_list_raise_fails) (use assms MyVitBlock_init_fails(1) in simp_all)
  then show ?thesis using assms(1-3) by (simp add: Myvit_init_def Let_def split: prod.splits)
qed

lemma Myvit_init_ok:
  assumes "0 < P" "h mod P = 0" "w mod P = 0" "nb = 0 \<or> (0 < nh \<and> hid mod nh = 0)"
  shows "\<exists>model g'. Myvit_init (c, h, w) P nb hid nh od g = Inr (model, g') \<and> Myvit_ok model \<and>
           vit_chw model = (c, h, w) \<and> vit_n_patches model = P \<and> vit_hidden_d model = hid \<and>
           length (vit_blocks model) = nb \<and>
           list_all (\<lambda>b. mlp_width (blk_mlp b) = 4 * hid) (vit_blocks model) \<and>
           mlp_width (vit_mlp model) = od"
proof -
  let ?input_d = "c * (h div P) * (w div P)"
  obtain mapper g1 where mapper: "Linear_init ?input_d hid g = (mapper, g1)"
    by (cases "Linear_init ?input_d hid g")
  obtain token g2 where token: "draw2 1 hid g1 = (token, g2)" by (cases "draw2 1 hid g1")
  from blocks_built[OF assms(4), of g2] obtain bs g3 where
    bs: "build_list_raise nb (MyVitBlock_init hid nh None) g2 = Inr (bs, g3)" "length bs = nb"
      "list_all (\<lambda>b. MyVitBlock_ok b \<and> blk_hidden_d b = hid \<and> mlp_width (blk_mlp b) = 4 * hid) bs"
    by blast
  obtain head g4 where head: "Linear_init hid od g3 = (head, g4)" by (cases "Linear_init hid od g3")
  let ?m = "\<lparr>vit_chw = (c, h, w), vit_n_patches = P, vit_n_bloack = nb,
                       vit_n_heads = nh, vit_hidden_d = hid,
                       vit_patch_size = (real h / real P, real w / real P), vit_input_d = ?input_d,
                       vit_linear_mapper = mapper,
                       vit_class_token = \<lparr>param_data = token, requires_grad = True\<rparr>,
                       vit_pos_embed =
                         \<lparr>param_data = get_positional_embeddings (P ^ 2 + 1) hid,
                          requires_grad = False\<rparr>,
                       vit_blocks = bs,
                       vit_mlp = [Linear_layer head, Softmax]\<rparr>"
  have id: "nat \<lfloor>real c * fst (real h / real P, real w / real P) *
      snd (real h / real P, real w / real P)\<rfloor> = ?input_d"
    by (simp only: fst_conv snd_conv input_d_exact[OF assms(1-3)])
  have init: "Myvit_init (c, h, w) P nb hid nh od g = Inr (?m, g4)"
    unfolding Myvit_init_def Let_def prod.case id
    using assms(1-3) mapper token bs(1) head by simp
  have ok: "Myvit_ok ?m"
    using assms(1-3) Linear_init_ok[OF mapper] draw2_shape[OF token] bs(3) Linear_init_ok[OF head]
    by (simp add: Myvit_ok_def list_all_iff)
  have "list_all (\<lambda>b. mlp_width (blk_mlp b) = 4 * hid) bs" using bs(3) by (simp add: list_all_iff)
  with init ok bs(2) Linear_init_ok[OF head] show ?thesis by simp
qed

lemma train_keeps_frozen:
  assumes "\<not> requires_grad (vit_pos_embed model)"
  shows "\<forall>m'\<in>set (train adam opt model batches). vit_pos_embed m' = vit_pos_embed model"
  using assms
proof (induction batches arbitrary: model opt)
  case Nil
  then show ?case by simp
next
  case (Cons batch batches)
  show ?case
  proof (cases "Myvit_forward model (fst batch)")
    case (Inl e)
    then show ?thesis by simp
  next
    case (Inr y_hat)
    obtain proposal opt' where a: "adam opt model batch y_hat = (proposal, opt')"
      by (cases "adam opt model batch y_hat")
    let ?next = "optimizer_step model proposal"
    have same: "vit_pos_embed ?next = vit_pos_embed model"
      using Cons.prems by (simp add: optimizer_step_def step_parameter_def)
    then have "\<not> requires_grad (vit_pos_embed ?next)" using Cons.prems by simp
    from Cons.IH[OF this, of opt'] same Inr a show ?thesis by simp
  qed
qed

section \<open>Construction and training: results\<close>

text \<open>
  C8. Whenever the construction of the model succeeds, its positional table is
  \<open>get_positional_embeddings (P\<^sup>2 + 1) hidden_d\<close>, of shape \<open>(P\<^sup>2 + 1, hidden_d)\<close>, with
  the gradient-tracking flag off; and every model the training loop passes through,
  whatever the optimizer proposes and whatever the batches are, holds the same table.
  A forward pass returns its output only and leaves the model as it is.
\<close>

theorem pos_embed_fixed:
  assumes "0 < P" "h mod P = 0" "w mod P = 0" "nb = 0 \<or> (0 < nh \<and> hid mod nh = 0)"
  shows "\<exists>model g'. Myvit_init (c, h, w) P nb hid nh od g = Inr (model, g') \<and>
           param_data (vit_pos_embed model) = get_positional_embeddings (P ^ 2 + 1) hid \<and>
           \<not> requires_grad (vit_pos_embed model) \<and>
           length (param_data (vit_pos_embed model)) = P ^ 2 + 1 \<and>
           list_all (\<lambda>row. length row = hid) (param_data (vit_pos_embed model)) \<and>
           (\<forall>adam opt batches. \<forall>m'\<in>set (train adam opt model batches).
              vit_pos_embed m' = vit_pos_embed model)"
proof -
  from Myvit_init_ok[OF assms, of c od g] obtain model g' where
    m: "Myvit_init (c, h, w) P nb hid nh od g = Inr (model, g')" "Myvit_ok model"
      "vit_n_patches model = P" "vit_hidden_d model = hid" by blast
  then have pos: "vit_pos_embed model =
      \<lparr>param_data = get_positional_embeddings (P ^ 2 + 1) hid, requires_grad = False\<rparr>"
    by (auto simp: Myvit_ok_def)
  have rows: "list_all (\<lambda>row. length row = hid) (get_positional_embeddings (P ^ 2 + 1) hid)"
    by (simp add: list_all_length get_positional_embeddings_shape)
  have frozen: "\<not> requires_grad (vit_pos_embed model)" using pos by simp
  show ?thesis
    apply (rule exI[of _ model], rule exI[of _ g'])
    apply (intro conjI allI)
         apply (rule m(1))
        apply (simp add: pos)
       apply (simp add: pos)
      apply (simp add: pos get_positional_embeddings_shape)
     apply (simp add: pos list_all_length get_positional_embeddings_shape)
    apply (rule train_keeps_frozen[OF frozen])
    done
qed

theorem pos_embed_fixed_witness:
  "\<exists>model g'. Myvit_init (1, 28, 28) 7 2 8 2 10 (\<lambda>k. 0) = Inr (model, g') \<and>
           param_data (vit_pos_embed model) = get_positional_embeddings (7 ^ 2 + 1) 8 \<and>
           \<not> requires_grad (vit_pos_embed model) \<and>
           length (param_data (vit_pos_embed model)) = 7 ^ 2 + 1 \<and>
           list_all (\<lambda>row. length row = 8) (param_data (vit_pos_embed model)) \<and>
           (\<forall>(adam :: nat \<Rightarrow> Myvit \<Rightarrow> real tensor4 \<times> nat \<Rightarrow> real list list \<Rightarrow> Myvit \<times> nat)
              opt batches. \<forall>m'\<in>set (train adam opt model batches).
              vit_pos_embed m' = vit_pos_embed model)"
  using pos_embed_fixed[where P = 7 and h = 28 and w = 28 and nb = 2 and nh = 2 and hid = 8
      and c = 1 and od = 10 and g = "\<lambda>k. 0"] by simp

text \<open>
  C9, as stated, fails: a model with no blocks builds no attention module, so the
  check that \<open>hidden_d\<close> is divisible by \<open>n_heads\<close> never runs, and the construction
  succeeds with \<open>hidden_d = 8\<close> and \<open>n_heads = 3\<close>.
\<close>

theorem Myvit_init_without_blocks_accepts:
  "(8 :: nat) mod 3 \<noteq> 0 \<and> (\<exists>model g'. Myvit_init (1, 28, 28) 7 0 8 3 10 (\<lambda>k. 0) = Inr (model, g'))"
proof -
  from Myvit_init_ok[where P = 7 and h = 28 and w = 28 and nb = 0 and nh = 3 and hid = 8
      and c = 1 and od = 10 and g = "\<lambda>k. 0"]
  have "\<exists>model g'. Myvit_init (1, 28, 28) 7 0 8 3 10 (\<lambda>k. 0) = Inr (model, g')"
    by auto
  then show ?thesis by simp
qed

text \<open>
  C9, amended: for a positive patch count, the construction raises an assertion error
  when the height or the width is not divisible by the patch count; it raises an
  assertion error when \<open>hidden_d\<close> is not divisible by a positive \<open>n_heads\<close> and at least
  one block is built; and it succeeds when height and width are divisible by the patch
  count and either no block is built or \<open>hidden_d\<close> is divisible by \<open>n_heads\<close>.
\<close>

theorem Myvit_init_checks:
  "(0 < P \<and> (h mod P \<noteq> 0 \<or> w mod P \<noteq> 0) \<longrightarrow>
      Myvit_init (c, h, w) P nb hid nh od g = Inl AssertionError) \<and>
   (0 < P \<and> h mod P = 0 \<and> w mod P = 0 \<and> 0 < nb \<and> 0 < nh \<and> hid mod nh \<noteq> 0 \<longrightarrow>
      Myvit_init (c, h, w) P nb hid nh od g = Inl AssertionError) \<and>
   (0 < P \<and> h mod P = 0 \<and> w mod P = 0 \<and> (nb = 0 \<or> 0 < nh \<and> hid mod nh = 0) \<longrightarrow>
      (\<exists>model g'. Myvit_init (c, h, w) P nb hid nh od g = Inr (model, g')))"
proof (intro conjI impI)
  assume "0 < P \<and> (h mod P \<noteq> 0 \<or> w mod P \<noteq> 0)"
  then show "Myvit_init (c, h, w) P nb hid nh od g = Inl AssertionError"
    by (intro Myvit_init_fails_patches) auto
next
  assume "0 < P \<and> h mod P = 0 \<and> w mod P = 0 \<and> 0 < nb \<and> 0 < nh \<and> hid mod nh \<noteq> 0"
  then show "Myvit_init (c, h, w) P nb hid nh od g = Inl AssertionError"
    by (intro Myvit_init_fails_heads) auto
next
  assume a: "0 < P \<and> h mod P = 0 \<and> w mod P = 0 \<and> (nb = 0 \<or> 0 < nh \<and> hid mod nh = 0)"
  then have "0 < P" "h mod P = 0" "w mod P = 0" "nb = 0 \<or> (0 < nh \<and> hid mod nh = 0)" by auto
  from Myvit_init_ok[OF this, of c od g]
  show "\<exists>model g'. Myvit_init (c, h, w) P nb hid nh od g = Inr (model, g')" by blast
qed

theorem Myvit_init_checks_witness:
  "Myvit_init (1, 28, 28) 5 2 8 2 10 (\<lambda>k. 0) = Inl AssertionError \<and>
   Myvit_init (1, 28, 28) 7 2 8 3 10 (\<lambda>k. 0) = Inl AssertionError \<and>
   (\<exists>model g'. Myvit_init (1, 28, 28) 7 2 8 2 10 (\<lambda>k. 0) = Inr (model, g'))"
  using Myvit_init_checks[where P = 5 and h = 28 and w = 28 and nb = 2 and nh = 2 and hid = 8
      and c = 1 and od = 10 and g = "\<lambda>k. 0"]
    Myvit_init_checks[where P = 7 and h = 28 and w = 28 and nb = 2 and nh = 3 and hid = 8
      and c = 1 and od = 10 and g = "\<lambda>k. 0"]
    Myvit_init_checks[where P = 7 and h = 28 and w = 28 and nb = 2 and nh = 2 and hid = 8
      and c = 1 and od = 10 and g = "\<lambda>k. 0"]
  by simp

text \<open>
  C10, as stated, fails: \<open>mlp_ratio\<close> is not a parameter of the model's constructor, and
  a call that passes it raises.
\<close>

theorem Myvit_call_rejects_mlp_ratio:
  "Myvit_call (1, 28, 28) [(''mlp_ratio'', 2)] (\<lambda>k. 0) = Inl TypeError"
  by (simp add: Myvit_call_def Myvit_keywords_def)

text \<open>
  C10, amended: \<open>mlp_ratio\<close> is an option of the block's constructor with default 4: a
  block built with \<open>mlp_ratio = r\<close> expands \<open>hidden_d\<close> to \<open>r hidden_d\<close>, and to
  \<open>4 hidden_d\<close> when it is left out. The model's constructor builds every block without
  it, so every block of a model expands to \<open>4 hidden_d\<close>; a call of the model's
  constructor that passes \<open>mlp_ratio\<close> raises a type error.
\<close>

theorem mlp_ratio_of_blocks:
  assumes "0 < nh" "hid mod nh = 0"
  shows "(\<exists>b g'. MyVitBlock_init hid nh (Some r) g = Inr (b, g') \<and>
            is_mlp (blk_mlp b) hid \<and> mlp_width (blk_mlp b) = r * hid) \<and>
         (\<exists>b g'. MyVitBlock_init hid nh None g = Inr (b, g') \<and>
            is_mlp (blk_mlp b) hid \<and> mlp_width (blk_mlp b) = 4 * hid) \<and>
         (0 < P \<and> h mod P = 0 \<and> w mod P = 0 \<longrightarrow>
            (\<exists>model g'. Myvit_init (c, h, w) P nb hid nh od g = Inr (model, g') \<and>
               length (vit_blocks model) = nb \<and>
               list_all (\<lambda>b. is_mlp (blk_mlp b) hid \<and> mlp_width (blk_mlp b) = 4 * hid)
                 (vit_blocks model))) \<and>
         (\<forall>kwargs. ''mlp_ratio'' \<in> fst ` set kwargs \<longrightarrow> Myvit_call (c, h, w) kwargs g = Inl TypeError)"
proof (intro conjI impI allI)
  from MyVitBlock_init_ok[OF assms, of "Some r" g]
  show "\<exists>b g'. MyVitBlock_init hid nh (Some r) g = Inr (b, g') \<and>
            is_mlp (blk_mlp b) hid \<and> mlp_width (blk_mlp b) = r * hid"
    by (auto simp: MyVitBlock_ok_def)
next
  from MyVitBlock_init_ok[OF assms, of None g]
  show "\<exists>b g'. MyVitBlock_init hid nh None g = Inr (b, g') \<and>
            is_mlp (blk_mlp b) hid \<and> mlp_width (blk_mlp b) = 4 * hid"
    by (auto simp: MyVitBlock_ok_def)
next
  assume "0 < P \<and> h mod P = 0 \<and> w mod P = 0"
  then have "0 < P" "h mod P = 0" "w mod P = 0" "nb = 0 \<or> (0 < nh \<and> hid mod nh = 0)"
    using assms by auto
  from Myvit_init_ok[OF this, of c od g] obtain model g' where
    m: "Myvit_init (c, h, w) P nb hid nh od g = Inr (model, g')" "Myvit_ok model"
      "vit_hidden_d model = hid" "length (vit_blocks model) = nb"
      "list_all (\<lambda>b. mlp_width (blk_mlp b) = 4 * hid) (vit_blocks model)" by blast
  from m(2,3) have "list_all (\<lambda>b. MyVitBlock_ok b \<and> blk_hidden_d b = hid) (vit_blocks model)"
    by (auto simp: Myvit_ok_def)
  with m(5) have "list_all (\<lambda>b. is_mlp (blk_mlp b) hid \<and> mlp_width (blk_mlp b) = 4 * hid)
                 (vit_blocks model)"
    by (auto simp: list_all_iff MyVitBlock_ok_def)
  with m(1,4) show "\<exists>model g'. Myvit_init (c, h, w) P nb hid nh od g = Inr (model, g') \<and>
               length (vit_blocks model) = nb \<and>
               list_all (\<lambda>b. is_mlp (blk_mlp b) hid \<and> mlp_width (blk_mlp b) = 4 * hid)
                 (vit_blocks model)" by blast
next
  fix kwargs :: "(string \<times> nat) list"
  assume "''mlp_ratio'' \<in> fst ` set kwargs"
  then obtain v where v: "(''mlp_ratio'', v) \<in> set kwargs" by auto
  have "''mlp_ratio'' \<notin> set Myvit_keywords" by (simp add: Myvit_keywords_def)
  with v have "\<not> list_all (\<lambda>name. name \<in> set Myvit_keywords) (map fst kwargs)"
    unfolding list_all_iff by force
  then show "Myvit_call (c, h, w) kwargs g = Inl TypeError" by (simp add: Myvit_call_def)
qed

theorem mlp_ratio_of_blocks_witness:
  "(\<exists>b g'. MyVitBlock_init 8 2 (Some 3) (\<lambda>k. 0) = Inr (b, g') \<and>
            is_mlp (blk_mlp b) 8 \<and> mlp_width (blk_mlp b) = 3 * 8) \<and>
   (\<exists>b g'. MyVitBlock_init 8 2 None (\<lambda>k. 0) = Inr (b, g') \<and>
            is_mlp (blk_mlp b) 8 \<and> mlp_width (blk_mlp b) = 4 * 8) \<and>
   (\<exists>model g'. Myvit_init (1, 28, 28) 7 2 8 2 10 (\<lambda>k. 0) = Inr (model, g') \<and>
               length (vit_blocks model) = 2 \<and>
               list_all (\<lambda>b. is_mlp (blk_mlp b) 8 \<and> mlp_width (blk_mlp b) = 4 * 8)
                 (vit_blocks model)) \<and>
   Myvit_call (1, 28, 28) [(''n_patches'', 7), (''mlp_ratio'', 2)] (\<lambda>k. 0) = Inl TypeError"
proof -
  have a: "0 < (2::nat)" "(8::nat) mod 2 = 0" by simp_all
  have b: "''mlp_ratio'' \<in> fst ` set [(''n_patches'', 7::nat), (''mlp_ratio'', 2)]" by simp
  show ?thesis
    using mlp_ratio_of_blocks[OF a, where r = 3 and g = "\<lambda>k. 0" and P = 7 and h = 28 and w = 28
        and c = 1 and nb = 2 and od = 10] b
    by simp
qed

end
